theory Spec2Isabelle
  imports Complex_Main "HOL-Library.Extended_Nat"
begin

section \<open>Data model\<close>

text \<open>
  The analyzer (lib/analyzer.js) works on JavaScript numbers and strings.  All counters
  of a metrics object are non-negative integers, so they are \<^typ>\<open>nat\<close> here; the mood
  score may become negative and is an \<^typ>\<open>int\<close>; the two ratios are quotients of
  integers and are exact rationals (\<^typ>\<open>rat\<close>).  A double represents every integer
  below \<open>2^53\<close> exactly and its division is correctly rounded, so for counters below
  \<open>2^50\<close> each comparison of a quotient with one of the decimal thresholds of the
  source has the same outcome as the exact comparison written here, and so has each
  rounding of a quotient by \<open>Math.round\<close>.

  A source text is a \<^typ>\<open>string\<close>: a list of code units, restricted to the code
  units \<open>0 .. 255\<close>.
\<close>

datatype mood =
  ecstatic | happy | content | neutral | stressed | frustrated | sad
  | zen | chaotic | mysterious

text \<open>
  The \<open>totals\<close> object of \<open>calculateAggregateMood\<close> (src/cli.js).  It is declared
  before the metrics record so that an unqualified field name denotes the metrics field.
\<close>

record totals =
  totalLines :: nat
  codeLines :: nat
  commentLines :: nat
  positiveWords :: nat
  negativeWords :: nat
  stressWords :: nat
  todoCount :: nat
  fixmeCount :: nat
  hackCount :: nat
  functionCount :: nat

record metrics =
  filename :: string
  totalLines :: nat
  codeLines :: nat
  commentLines :: nat
  blankLines :: nat
  avgLineLength :: nat
  longestLine :: nat
  shortestNonEmptyLine :: enat
  exclamationMarks :: nat
  questionMarks :: nat
  positiveWords :: nat
  negativeWords :: nat
  stressWords :: nat
  todoCount :: nat
  fixmeCount :: nat
  hackCount :: nat
  functionCount :: nat
  variableDeclarations :: nat
  nestingDepth :: nat
  hasTests :: bool

text \<open>A glyph is the list of the Unicode code points of an emoji.\<close>

type_synonym glyph = "nat list"

record moodResult =
  mood :: mood
  score :: int
  emoji :: glyph
  description :: string
  isZen :: bool
  isChaotic :: bool
  isMysterious :: bool

section \<open>The lookup tables\<close>

fun MOOD_EMOJIS :: "mood \<Rightarrow> glyph" where
  "MOOD_EMOJIS ecstatic = [0x1F389]"
| "MOOD_EMOJIS happy = [0x1F60A]"
| "MOOD_EMOJIS content = [0x1F642]"
| "MOOD_EMOJIS neutral = [0x1F610]"
| "MOOD_EMOJIS stressed = [0x1F630]"
| "MOOD_EMOJIS frustrated = [0x1F624]"
| "MOOD_EMOJIS sad = [0x1F622]"
| "MOOD_EMOJIS zen = [0x1F9D8]"
| "MOOD_EMOJIS chaotic = [0x1F32A, 0xFE0F]"
| "MOOD_EMOJIS mysterious = [0x1F52E]"

fun MOOD_DESCRIPTIONS :: "mood \<Rightarrow> string" where
  "MOOD_DESCRIPTIONS ecstatic =
     ''This code is absolutely thriving! The developer was clearly in a great mood.''"
| "MOOD_DESCRIPTIONS happy =
     ''Pleasant vibes here! The code seems well-maintained and loved.''"
| "MOOD_DESCRIPTIONS content =
     ''Steady and stable. This code is doing its job without complaints.''"
| "MOOD_DESCRIPTIONS neutral = ''Neither happy nor sad. Just code being code.''"
| "MOOD_DESCRIPTIONS stressed =
     ''Uh oh! This code might be under some pressure. Watch out for deadlines!''"
| "MOOD_DESCRIPTIONS frustrated =
     ''Someone was having a rough day. Consider some code therapy.''"
| "MOOD_DESCRIPTIONS sad = ''This code needs a hug. Maybe some refactoring would help?''"
| "MOOD_DESCRIPTIONS zen =
     ''Perfectly balanced, as all code should be. Clean, documented, harmonious.''"
| "MOOD_DESCRIPTIONS chaotic =
     ''Wild and unpredictable! This code lives life on the edge.''"
| "MOOD_DESCRIPTIONS mysterious =
     ''Enigmatic code that keeps its secrets close. What does it really do?''"

section \<open>determineMood\<close>

text \<open>
  \<open>x || 1\<close> on a number: \<open>0\<close> is falsy and is replaced by \<open>1\<close>, every other
  number is kept.
\<close>

definition or_one :: "nat \<Rightarrow> nat" where
  "or_one x = (if x = 0 then 1 else x)"

text \<open>The quotient \<open>a / b\<close> of two counters.\<close>

definition quot :: "nat \<Rightarrow> nat \<Rightarrow> rat" where
  "quot a b = of_nat a / of_nat b"

text \<open>
  The body of \<open>determineMood\<close>, statement by statement: each \<open>moodScore += ...\<close>
  rebinds \<open>moodScore\<close>.
\<close>

definition determineMood :: "metrics \<Rightarrow> moodResult" where
  "determineMood m =
    (let moodScore = (50 :: int);
         commentRatio = quot (commentLines m) (or_one (codeLines m));
         moodScore =
           (if commentRatio \<ge> 0.2 then moodScore + 15
            else if commentRatio \<ge> 0.1 then moodScore + 5
            else if commentRatio < 0.05 then moodScore - 10
            else moodScore);
         moodScore = moodScore + int (positiveWords m) * 5;
         moodScore = moodScore - int (negativeWords m) * 8;
         moodScore = moodScore - int (stressWords m) * 10;
         moodScore = moodScore - int (todoCount m) * 3;
         moodScore = moodScore - int (fixmeCount m) * 5;
         moodScore = moodScore - int (hackCount m) * 7;
         moodScore =
           (if nestingDepth m > 5 then moodScore - 15
            else if nestingDepth m > 3 then moodScore - 5
            else moodScore);
         moodScore =
           (if longestLine m > 150 then moodScore - 10
            else if longestLine m > 100 then moodScore - 5
            else moodScore);
         punctuationDensity =
           quot (exclamationMarks m + questionMarks m) (or_one (totalLines m));
         moodScore = (if punctuationDensity > 0.5 then moodScore - 15 else moodScore);
         moodScore = (if hasTests m then moodScore + 10 else moodScore);
         isZen' = (commentRatio \<ge> 0.15 \<and> nestingDepth m \<le> 3 \<and> hackCount m = 0);
         isChaotic' = (nestingDepth m > 5 \<or> punctuationDensity > 0.3);
         isMysterious' = (commentRatio < 0.02 \<and> totalLines m > 50);
         mood' =
           (if isZen' \<and> moodScore \<ge> 60 then zen
            else if isChaotic' \<and> moodScore < 40 then chaotic
            else if isMysterious' then mysterious
            else if moodScore \<ge> 80 then ecstatic
            else if moodScore \<ge> 65 then happy
            else if moodScore \<ge> 55 then content
            else if moodScore \<ge> 45 then neutral
            else if moodScore \<ge> 35 then stressed
            else if moodScore \<ge> 25 then frustrated
            else sad)
     in \<lparr> mood = mood',
          score = max 0 (min 100 moodScore),
          emoji = MOOD_EMOJIS mood',
          description = MOOD_DESCRIPTIONS mood',
          isZen = isZen',
          isChaotic = isChaotic',
          isMysterious = isMysterious' \<rparr>)"

subsection \<open>The classifier as the specification words it\<close>

definition spec_commentRatio :: "metrics \<Rightarrow> rat" where
  "spec_commentRatio m = of_nat (commentLines m) / of_nat (max (codeLines m) 1)"

definition spec_punctuationDensity :: "metrics \<Rightarrow> rat" where
  "spec_punctuationDensity m =
     of_nat (exclamationMarks m + questionMarks m) / of_nat (max (totalLines m) 1)"

definition spec_commentAdjustment :: "rat \<Rightarrow> int" where
  "spec_commentAdjustment r =
     (if r \<ge> 0.2 then 15 else if r \<ge> 0.1 then 5 else if r < 0.05 then - 10 else 0)"

definition spec_rawScore :: "metrics \<Rightarrow> int" where
  "spec_rawScore m =
     50 + spec_commentAdjustment (spec_commentRatio m)
     + 5 * int (positiveWords m) - 8 * int (negativeWords m) - 10 * int (stressWords m)
     - 3 * int (todoCount m) - 5 * int (fixmeCount m) - 7 * int (hackCount m)
     + (if nestingDepth m > 5 then - 15 else if nestingDepth m > 3 then - 5 else 0)
     + (if longestLine m > 150 then - 10 else if longestLine m > 100 then - 5 else 0)
     + (if spec_punctuationDensity m > 0.5 then - 15 else 0)
     + (if hasTests m then 10 else 0)"

definition spec_clamp :: "int \<Rightarrow> int" where
  "spec_clamp s = (if s < 0 then 0 else if s > 100 then 100 else s)"

definition spec_isZen :: "metrics \<Rightarrow> bool" where
  "spec_isZen m =
     (spec_commentRatio m \<ge> 0.15 \<and> nestingDepth m \<le> 3 \<and> hackCount m = 0)"

definition spec_isChaotic :: "metrics \<Rightarrow> bool" where
  "spec_isChaotic m = (nestingDepth m > 5 \<or> spec_punctuationDensity m > 0.3)"

definition spec_isMysterious :: "metrics \<Rightarrow> bool" where
  "spec_isMysterious m = (spec_commentRatio m < 0.02 \<and> totalLines m > 50)"

definition spec_selectMood :: "bool \<Rightarrow> bool \<Rightarrow> bool \<Rightarrow> int \<Rightarrow> mood" where
  "spec_selectMood z c y s =
     (if z \<and> s \<ge> 60 then zen
      else if c \<and> s < 40 then chaotic
      else if y then mysterious
      else if s \<ge> 80 then ecstatic
      else if s \<ge> 65 then happy
      else if s \<ge> 55 then content
      else if s \<ge> 45 then neutral
      else if s \<ge> 35 then stressed
      else if s \<ge> 25 then frustrated
      else sad)"

section \<open>generateSuggestions\<close>

text \<open>
  Each suggestion of the source is one fixed message; the constructors stand for
  them in the order of the source:
  \<^item> \<open>AddComments\<close>: "Consider adding more comments to explain your code's intent";
  \<^item> \<open>ExtractNesting\<close>: "Deep nesting detected! Consider extracting some logic into
    separate functions";
  \<^item> \<open>CleanHacks n\<close>: "You have n hack(s) in your code. Time for some cleanup?";
  \<^item> \<open>TackleTodos\<close>: "Lots of TODOs piling up! Maybe tackle a few today?";
  \<^item> \<open>ShortenLines\<close>: "Some lines are quite long. Consider breaking them up for
    readability";
  \<^item> \<open>ZenPraise\<close>: "Your code is in a great state! Keep up the good work";
  \<^item> \<open>MysteryComments\<close>: "Your code is shrouded in mystery. Future you will thank
    present you for comments!";
  \<^item> \<open>AddTests\<close>: "No tests detected! Consider adding some to ensure reliability".
\<close>

datatype suggestion =
  AddComments | ExtractNesting | CleanHacks nat | TackleTodos | ShortenLines
  | ZenPraise | MysteryComments | AddTests

text \<open>\<open>suggestions.push(x)\<close> appends \<open>x\<close> at the end.\<close>

definition push :: "'a list \<Rightarrow> 'a \<Rightarrow> 'a list" where
  "push xs x = xs @ [x]"

definition generateSuggestions :: "metrics \<Rightarrow> moodResult \<Rightarrow> suggestion list" where
  "generateSuggestions m r =
    (let suggestions = [];
         suggestions =
           (if quot (commentLines m) (or_one (codeLines m)) < 0.1
            then push suggestions AddComments else suggestions);
         suggestions =
           (if nestingDepth m > 4 then push suggestions ExtractNesting else suggestions);
         suggestions =
           (if hackCount m > 0 then push suggestions (CleanHacks (hackCount m))
            else suggestions);
         suggestions =
           (if todoCount m > 3 then push suggestions TackleTodos else suggestions);
         suggestions =
           (if longestLine m > 120 then push suggestions ShortenLines else suggestions);
         suggestions =
           (if mood r = zen then push suggestions ZenPraise else suggestions);
         suggestions =
           (if mood r = mysterious then push suggestions MysteryComments
            else suggestions);
         suggestions =
           (if \<not> hasTests m \<and> functionCount m > 3 then push suggestions AddTests
            else suggestions)
     in suggestions)"

subsection \<open>The suggestion generator as the specification words it\<close>

text \<open>The eight checks in their fixed order, each with its suggestion.\<close>

definition spec_checks :: "metrics \<Rightarrow> moodResult \<Rightarrow> (bool \<times> suggestion) list" where
  "spec_checks m r =
     [(spec_commentRatio m < 0.1, AddComments),
      (nestingDepth m > 4, ExtractNesting),
      (hackCount m > 0, CleanHacks (hackCount m)),
      (todoCount m > 3, TackleTodos),
      (longestLine m > 120, ShortenLines),
      (mood r = zen, ZenPraise),
      (mood r = mysterious, MysteryComments),
      (\<not> hasTests m \<and> functionCount m > 3, AddTests)]"

text \<open>Exactly the suggestions whose check holds, in the order of the list.\<close>

definition spec_suggest :: "metrics \<Rightarrow> moodResult \<Rightarrow> suggestion list" where
  "spec_suggest m r = map snd (filter fst (spec_checks m r))"

section \<open>Strings and regular expressions\<close>

text \<open>The line feed, the separator of \<open>code.split('\n')\<close>.\<close>

definition LF :: char where
  "LF = CHR 0x0A"

text \<open>
  \<open>split_from cur s\<close>: the segments of \<open>s\<close> between line feeds, where \<open>cur\<close> holds
  the code units of the current segment read so far, last one first.  The empty
  string has one (empty) segment.
\<close>

fun split_from :: "string \<Rightarrow> string \<Rightarrow> string list" where
  "split_from cur [] = [rev cur]"
| "split_from cur (c # cs) =
     (if c = LF then rev cur # split_from [] cs else split_from (c # cur) cs)"

definition split_lines :: "string \<Rightarrow> string list" where
  "split_lines s = split_from [] s"

text \<open>
  White space and line terminators of ECMAScript among the code units \<open>0 .. 255\<close>:
  TAB, LF, VT, FF, CR, SP and NBSP.  \<open>trim()\<close> strips them at both ends and the
  class \<open>\s\<close> of a regular expression is the same set.
\<close>

definition is_space :: "char \<Rightarrow> bool" where
  "is_space c =
     (c \<in> set [CHR 0x09, CHR 0x0A, CHR 0x0B, CHR 0x0C, CHR 0x0D, CHR 0x20, CHR 0xA0])"

definition trim :: "string \<Rightarrow> string" where
  "trim s = rev (dropWhile is_space (rev (dropWhile is_space s)))"

definition startsWith :: "string \<Rightarrow> string \<Rightarrow> bool" where
  "startsWith s p = (take (length p) s = p)"

text \<open>The class \<open>\w\<close>: ASCII letters, digits and the underscore.\<close>

definition is_word :: "char \<Rightarrow> bool" where
  "is_word c =
     (c \<in> set (''abcdefghijklmnopqrstuvwxyz'' @ ''ABCDEFGHIJKLMNOPQRSTUVWXYZ''
               @ ''0123456789_''))"

text \<open>
  \<open>toLowerCase()\<close> on the code units \<open>0 .. 255\<close>: the letters \<open>A .. Z\<close> and the
  Latin-1 capitals \<open>0xC0 .. 0xDE\<close> (without the multiplication sign \<open>0xD7\<close>) move up
  by 32.
\<close>

definition lower_unit :: "char \<Rightarrow> char" where
  "lower_unit c =
     (let n = (of_char c :: nat)
      in if (65 \<le> n \<and> n \<le> 90) \<or> (192 \<le> n \<and> n \<le> 222 \<and> n \<noteq> 215)
         then char_of (n + 32) else c)"

definition toLowerCase :: "string \<Rightarrow> string" where
  "toLowerCase s = map lower_unit s"

text \<open>
  The canonical form of a code unit under the flag \<open>i\<close> (without the flag \<open>u\<close>): its
  upper case when that is one code unit.  Two code units match under \<open>i\<close> when their
  canonical forms are equal.  Among the code units \<open>0 .. 255\<close>, \<open>a .. z\<close> and the
  Latin-1 small letters \<open>0xE0 .. 0xFE\<close> (without the division sign \<open>0xF7\<close>) move down
  by 32; the upper cases of \<open>0xB5\<close> and \<open>0xFF\<close> lie outside the range and equal the
  canonical form of no other code unit of the range, so these two stay as they are.
\<close>

definition canonicalize :: "char \<Rightarrow> char" where
  "canonicalize c =
     (let n = (of_char c :: nat)
      in if (97 \<le> n \<and> n \<le> 122) \<or> (224 \<le> n \<and> n \<le> 254 \<and> n \<noteq> 247)
         then char_of (n - 32) else c)"

text \<open>
  The regular expressions of the source use literals, the classes \<open>\s\<close> and \<open>\w\<close>
  under \<open>*\<close> and \<open>+\<close>, the assertion \<open>\b\<close>, sequence, alternative and \<open>?\<close>.
\<close>

datatype cclass = Space | Word

fun in_class :: "cclass \<Rightarrow> char \<Rightarrow> bool" where
  "in_class Space c = is_space c"
| "in_class Word c = is_word c"

datatype regex =
  RLit string
  | RLitI string
  | RStar cclass
  | RPlus cclass
  | RWordB
  | RSeq regex regex
  | RAlt regex regex
  | ROpt regex

text \<open>
  A matcher position is the code unit before the position, if any, and the rest of
  the input.  Each matcher returns the positions after a match, in the order in which
  a backtracking matcher tries them: the first is the match that \<open>exec\<close> reports.
\<close>

type_synonym pos = "char option \<times> string"

fun lit_match :: "(char \<Rightarrow> char) \<Rightarrow> string \<Rightarrow> pos \<Rightarrow> pos list" where
  "lit_match canon [] p = [p]"
| "lit_match canon (x # xs) (prev, []) = []"
| "lit_match canon (x # xs) (prev, c # cs) =
     (if canon x = canon c then lit_match canon xs (Some c, cs) else [])"

text \<open>Greedy repetition of a class: the longest run first, then the shorter ones.\<close>

fun star_match :: "cclass \<Rightarrow> pos \<Rightarrow> pos list" where
  "star_match k (prev, []) = [(prev, [])]"
| "star_match k (prev, c # cs) =
     (if in_class k c then star_match k (Some c, cs) @ [(prev, c # cs)]
      else [(prev, c # cs)])"

fun plus_match :: "cclass \<Rightarrow> pos \<Rightarrow> pos list" where
  "plus_match k (prev, []) = []"
| "plus_match k (prev, c # cs) = (if in_class k c then star_match k (Some c, cs) else [])"

text \<open>\<open>\b\<close> holds where exactly one of the two neighbours is a word character.\<close>

definition word_before :: "pos \<Rightarrow> bool" where
  "word_before p = (case fst p of None \<Rightarrow> False | Some c \<Rightarrow> is_word c)"

definition word_after :: "pos \<Rightarrow> bool" where
  "word_after p = (case snd p of [] \<Rightarrow> False | c # cs \<Rightarrow> is_word c)"

fun rx_match :: "regex \<Rightarrow> pos \<Rightarrow> pos list" where
  "rx_match (RLit w) p = lit_match id w p"
| "rx_match (RLitI w) p = lit_match canonicalize w p"
| "rx_match (RStar k) p = star_match k p"
| "rx_match (RPlus k) p = plus_match k p"
| "rx_match RWordB p = (if word_before p \<noteq> word_after p then [p] else [])"
| "rx_match (RSeq a b) p = concat (map (rx_match b) (rx_match a p))"
| "rx_match (RAlt a b) p = rx_match a p @ rx_match b p"
| "rx_match (ROpt a) p = rx_match a p @ [p]"

text \<open>\<open>regex.test(s)\<close> without the flag \<open>g\<close>: is there a match at some index.\<close>

fun test_from :: "regex \<Rightarrow> char option \<Rightarrow> string \<Rightarrow> bool" where
  "test_from r prev [] = (rx_match r (prev, []) \<noteq> [])"
| "test_from r prev (c # cs) =
     (rx_match r (prev, c # cs) \<noteq> [] \<or> test_from r (Some c) cs)"

definition rx_test :: "regex \<Rightarrow> string \<Rightarrow> bool" where
  "rx_test r s = test_from r None s"

text \<open>
  \<open>s.match(regex)\<close> with the flag \<open>g\<close>: the matched substrings from left to right.
  After a match the search goes on at its end (one code unit further after an empty
  match); \<open>skip\<close> counts the code units of the last match still to pass.  The result
  is \<open>null\<close> (\<open>None\<close>) when there is no match at all.
\<close>

fun match_all_from :: "regex \<Rightarrow> nat \<Rightarrow> char option \<Rightarrow> string \<Rightarrow> string list" where
  "match_all_from r skip prev [] =
     (if skip = 0 \<and> rx_match r (prev, []) \<noteq> [] then [[]] else [])"
| "match_all_from r skip prev (c # cs) =
     (if skip > 0 then match_all_from r (skip - 1) (Some c) cs
      else case rx_match r (prev, c # cs) of
             [] \<Rightarrow> match_all_from r 0 (Some c) cs
           | q # qs \<Rightarrow>
               (let n = length (c # cs) - length (snd q)
                in take n (c # cs) # match_all_from r (n - 1) (Some c) cs))"

definition match_g :: "string \<Rightarrow> regex \<Rightarrow> string list option" where
  "match_g s r = (case match_all_from r 0 None s of [] \<Rightarrow> None | ms \<Rightarrow> Some ms)"

text \<open>\<open>x || []\<close> on the result of \<open>match\<close>: \<open>null\<close> is replaced by the empty array.\<close>

definition or_nil :: "'a list option \<Rightarrow> 'a list" where
  "or_nil x = (case x of None \<Rightarrow> [] | Some ms \<Rightarrow> ms)"

text \<open>\<open>(s.match(r) || []).length\<close>.\<close>

definition count_matches :: "string \<Rightarrow> regex \<Rightarrow> nat" where
  "count_matches s r = length (or_nil (match_g s r))"

text \<open>\<open>Math.round\<close>: the nearest integer, a half rounded towards plus infinity.\<close>

definition js_round :: "rat \<Rightarrow> int" where
  "js_round x = \<lfloor>x + 1 / 2\<rfloor>"

section \<open>analyzeCode\<close>

definition positive_words :: "string list" where
  "positive_words =
     [''success'', ''happy'', ''great'', ''excellent'', ''good'', ''nice'', ''awesome'',
      ''perfect'', ''wonderful'', ''beautiful'', ''clean'', ''elegant'']"

definition negative_words :: "string list" where
  "negative_words =
     [''hack'', ''fixme'', ''bug'', ''ugly'', ''terrible'', ''bad'', ''broken'',
      ''deprecated'', ''legacy'', ''wtf'', ''horrible'', ''nightmare'']"

definition stress_words :: "string list" where
  "stress_words =
     [''urgent'', ''asap'', ''critical'', ''emergency'', ''deadline'', ''hurry'', ''rush'']"

text \<open>\<open>new RegExp(`\\b${word}\\b`, 'gi')\<close>.\<close>

definition word_rx :: "string \<Rightarrow> regex" where
  "word_rx w = RSeq RWordB (RSeq (RLitI w) RWordB)"

text \<open>
  \<open>/function\s+\w+|=>\s*{|\bconst\s+\w+\s*=\s*(?:async\s+)?(?:function|\()/\<close>
\<close>

definition function_rx :: regex where
  "function_rx =
     RAlt (RSeq (RLit ''function'') (RSeq (RPlus Space) (RPlus Word)))
    (RAlt (RSeq (RLit ''=>'') (RSeq (RStar Space) (RLit ''{'')))
          (RSeq RWordB (RSeq (RLit ''const'') (RSeq (RPlus Space) (RSeq (RPlus Word)
            (RSeq (RStar Space) (RSeq (RLit ''='') (RSeq (RStar Space)
              (RSeq (ROpt (RSeq (RLit ''async'') (RPlus Space)))
                    (RAlt (RLit ''function'') (RLit ''('')))))))))))"

text \<open>\<open>/(?:const|let|var)\s+\w+/\<close>\<close>

definition variable_rx :: regex where
  "variable_rx =
     RSeq (RAlt (RLit ''const'') (RAlt (RLit ''let'') (RLit ''var'')))
          (RSeq (RPlus Space) (RPlus Word))"

text \<open>\<open>/(?:describe|it|test|expect|assert)\s*\(/\<close>\<close>

definition tests_rx :: regex where
  "tests_rx =
     RSeq (RAlt (RLit ''describe'') (RAlt (RLit ''it'') (RAlt (RLit ''test'')
            (RAlt (RLit ''expect'') (RLit ''assert'')))))
          (RSeq (RStar Space) (RLit ''(''))"

text \<open>
  The variables of the line loop: the metrics object under construction and the three
  local counters.
\<close>

record loop_state =
  acc :: metrics
  currentDepth :: int
  maxDepth :: int
  totalLength :: nat

text \<open>One pass of the loop \<open>for (const line of lines)\<close>.\<close>

definition scan_line :: "loop_state \<Rightarrow> string \<Rightarrow> loop_state" where
  "scan_line st line =
    (let trimmed = trim line;
         m = acc st;
         m = (if trimmed = [] then m\<lparr>blankLines := blankLines m + 1\<rparr>
              else if startsWith trimmed ''//'' \<or> startsWith trimmed ''/*''
                      \<or> startsWith trimmed ''*''
              then m\<lparr>commentLines := commentLines m + 1\<rparr>
              else m\<lparr>codeLines := codeLines m + 1\<rparr>);
         totalLength' =
           (if length trimmed > 0 then totalLength st + length trimmed else totalLength st);
         m = (if length trimmed > 0
              then m\<lparr>longestLine := max (longestLine m) (length trimmed),
                     shortestNonEmptyLine :=
                       min (shortestNonEmptyLine m) (enat (length trimmed))\<rparr>
              else m);
         m = m\<lparr>exclamationMarks := exclamationMarks m + count_matches line (RLit ''!'')\<rparr>;
         m = m\<lparr>questionMarks := questionMarks m + count_matches line (RLit ''?'')\<rparr>;
         currentDepth' = currentDepth st + int (count_matches line (RLit ''{''));
         currentDepth' = currentDepth' - int (count_matches line (RLit ''}''));
         maxDepth' = max (maxDepth st) currentDepth';
         m = (if rx_test function_rx line then m\<lparr>functionCount := functionCount m + 1\<rparr>
              else m);
         m = (if rx_test variable_rx line
              then m\<lparr>variableDeclarations := variableDeclarations m + 1\<rparr> else m)
     in \<lparr> acc = m, currentDepth = currentDepth', maxDepth = maxDepth',
          totalLength = totalLength' \<rparr>)"

text \<open>\<open>metrics.xWords += (code.match(regex) || []).length\<close> for each word of a list.\<close>

definition count_words :: "string list \<Rightarrow> string \<Rightarrow> nat \<Rightarrow> nat" where
  "count_words ws code n0 = foldl (\<lambda>n w. n + count_matches code (word_rx w)) n0 ws"

text \<open>
  \<open>analyzeCode(code, filename)\<close>.  (\<open>filename\<close> defaults to \<open>'unknown'\<close> when the
  caller leaves it out; here it is always given.)
\<close>

definition analyzeCode :: "string \<Rightarrow> string \<Rightarrow> metrics" where
  "analyzeCode code fname =
    (let lines = split_lines code;
         m = \<lparr> filename = fname, totalLines = length lines, codeLines = 0,
               commentLines = 0, blankLines = 0, avgLineLength = 0, longestLine = 0,
               shortestNonEmptyLine = \<infinity>, exclamationMarks = 0, questionMarks = 0,
               positiveWords = 0, negativeWords = 0, stressWords = 0, todoCount = 0,
               fixmeCount = 0, hackCount = 0, functionCount = 0,
               variableDeclarations = 0, nestingDepth = 0, hasTests = False \<rparr>;
         st = foldl scan_line
                \<lparr> acc = m, currentDepth = 0, maxDepth = 0, totalLength = 0 \<rparr> lines;
         m = acc st;
         nonBlankLines = int (totalLines m) - int (blankLines m);
         m = m\<lparr>avgLineLength :=
                 (if nonBlankLines > 0
                  then nat (js_round (of_nat (totalLength st) / of_int nonBlankLines))
                  else 0)\<rparr>;
         m = m\<lparr>nestingDepth := nat (maxDepth st)\<rparr>;
         m = (if shortestNonEmptyLine m = \<infinity> then m\<lparr>shortestNonEmptyLine := 0\<rparr> else m);
         lowerCode = toLowerCase code;
         m = m\<lparr>positiveWords := count_words positive_words code (positiveWords m)\<rparr>;
         m = m\<lparr>negativeWords := count_words negative_words code (negativeWords m)\<rparr>;
         m = m\<lparr>stressWords := count_words stress_words code (stressWords m)\<rparr>;
         m = m\<lparr>todoCount := count_matches lowerCode (RLit ''todo'')\<rparr>;
         m = m\<lparr>fixmeCount := count_matches lowerCode (RLit ''fixme'')\<rparr>;
         m = m\<lparr>hackCount := count_matches lowerCode (RLit ''hack'')\<rparr>;
         m = m\<lparr>hasTests := rx_test tests_rx code\<rparr>
     in m)"

subsection \<open>The line classification as the specification words it\<close>

datatype line_kind = Blank | Comment | Code

text \<open>
  Trim the line.  Empty: blank.  Starts with \<open>//\<close>, \<open>/*\<close> or \<open>*\<close>: comment.
  Otherwise: code.
\<close>

definition spec_classify :: "string \<Rightarrow> line_kind" where
  "spec_classify line =
     (let t = trim line
      in if t = [] then Blank
         else if take 2 t = ''//'' \<or> take 2 t = ''/*'' \<or> take 1 t = ''*'' then Comment
         else Code)"

text \<open>The number of lines of one kind.\<close>

definition count_kind :: "line_kind \<Rightarrow> string list \<Rightarrow> nat" where
  "count_kind k ls = length (filter (\<lambda>l. spec_classify l = k) ls)"

text \<open>
  One of the five identifiers as a word of its own before an opening parenthesis:
  the pattern of the test detection with a word boundary on its left,
  \<open>/\b(?:describe|it|test|expect|assert)\s*\(/\<close>.
\<close>

definition standalone_tests_rx :: regex where
  "standalone_tests_rx = RSeq RWordB tests_rx"

section \<open>calculateAggregateMood\<close>

text \<open>One analysis result, as \<open>analyzeFile\<close> returns it.\<close>

record analysis =
  metrics :: metrics
  moodResult :: moodResult
  suggestions :: "suggestion list"

text \<open>
  \<open>moodCounts\<close> is an object with the mood labels as property names.  Its properties
  are enumerated in the order of their creation, so it is an association list in
  that order.
\<close>

type_synonym tally = "(mood \<times> nat) list"

text \<open>
  \<open>moodCounts[k] = (moodCounts[k] || 0) + 1\<close>: an existing property is increased
  in its place, a new one is created at the end with the count \<open>1\<close>.
\<close>

fun bump :: "tally \<Rightarrow> mood \<Rightarrow> tally" where
  "bump [] k = [(k, 1)]"
| "bump ((k', c) # es) k = (if k' = k then (k', c + 1) # es else (k', c) # bump es k)"

text \<open>The variables of the loop \<open>for (const result of results)\<close>.\<close>

record agg_state =
  totals_acc :: totals
  totalScore :: int
  counts :: tally

definition agg_step :: "agg_state \<Rightarrow> analysis \<Rightarrow> agg_state" where
  "agg_step st r =
    (let t = totals_acc st; m = metrics r
     in \<lparr> totals_acc =
            \<lparr> totals.totalLines = totals.totalLines t + totalLines m,
              totals.codeLines = totals.codeLines t + codeLines m,
              totals.commentLines = totals.commentLines t + commentLines m,
              totals.positiveWords = totals.positiveWords t + positiveWords m,
              totals.negativeWords = totals.negativeWords t + negativeWords m,
              totals.stressWords = totals.stressWords t + stressWords m,
              totals.todoCount = totals.todoCount t + todoCount m,
              totals.fixmeCount = totals.fixmeCount t + fixmeCount m,
              totals.hackCount = totals.hackCount t + hackCount m,
              totals.functionCount = totals.functionCount t + functionCount m \<rparr>,
          totalScore = totalScore st + score (moodResult r),
          counts = bump (counts st) (mood (moodResult r)) \<rparr>)"

definition agg_init :: agg_state where
  "agg_init =
     \<lparr> totals_acc =
         \<lparr> totals.totalLines = 0, totals.codeLines = 0, totals.commentLines = 0,
           totals.positiveWords = 0, totals.negativeWords = 0, totals.stressWords = 0,
           totals.todoCount = 0, totals.fixmeCount = 0, totals.hackCount = 0,
           totals.functionCount = 0 \<rparr>,
       totalScore = 0,
       counts = [] \<rparr>"

text \<open>
  \<open>Math.round(totalScore / n)\<close>.  With \<open>n = 0\<close> the quotient is \<open>NaN\<close> or infinite
  and so is the rounded value: \<open>None\<close>.
\<close>

definition round_div :: "int \<Rightarrow> nat \<Rightarrow> int option" where
  "round_div t n = (if n = 0 then None else Some (js_round (of_int t / of_nat n)))"

text \<open>
  \<open>Object.entries(moodCounts).sort((a, b) => b[1] - a[1])\<close>: the entries by falling
  count.  The sort of an array is stable.
\<close>

definition sort_entries :: "tally \<Rightarrow> tally" where
  "sort_entries es = sort_key (\<lambda>e. - int (snd e)) es"

datatype js_error = TypeError

record aggregate =
  fileCount :: nat
  totals :: totals
  avgScore :: "int option"
  dominantMood :: mood
  moodCounts :: tally

text \<open>
  \<open>calculateAggregateMood(results)\<close>.  \<open>sorted[0][0]\<close> reads a property of
  \<open>undefined\<close> when the sorted array is empty, which throws a \<open>TypeError\<close>.
\<close>

definition calculateAggregateMood :: "analysis list \<Rightarrow> js_error + aggregate" where
  "calculateAggregateMood results =
    (let st = foldl agg_step agg_init results;
         avgScore' = round_div (totalScore st) (length results)
     in case sort_entries (counts st) of
          [] \<Rightarrow> Inl TypeError
        | e # es \<Rightarrow>
            Inr \<lparr> fileCount = length results,
                  totals = totals_acc st,
                  avgScore = avgScore',
                  dominantMood = fst e,
                  moodCounts = counts st \<rparr>)"

subsection \<open>The aggregation as the specification words it\<close>

text \<open>The mood labels and the scores of the results, in the order of the input.\<close>

definition moods_of :: "analysis list \<Rightarrow> mood list" where
  "moods_of rs = map (\<lambda>r. mood (moodResult r)) rs"

definition scores_of :: "analysis list \<Rightarrow> int list" where
  "scores_of rs = map (\<lambda>r. score (moodResult r)) rs"

text \<open>The sum of one metrics field over the results.\<close>

definition field_sum :: "(metrics \<Rightarrow> nat) \<Rightarrow> analysis list \<Rightarrow> nat" where
  "field_sum f rs = sum_list (map (\<lambda>r. f (metrics r)) rs)"

text \<open>
  A label has the highest occurrence count when no label of the list occurs more
  often.
\<close>

definition most_frequent :: "mood list \<Rightarrow> mood \<Rightarrow> bool" where
  "most_frequent ms k = list_all (\<lambda>k'. count_list ms k' \<le> count_list ms k) ms"

text \<open>
  The dominant mood: among the labels with the highest occurrence count the one that
  is met first in the input.
\<close>

definition spec_dominant :: "mood list \<Rightarrow> mood option" where
  "spec_dominant ms = List.find (most_frequent ms) ms"

text \<open>Rounding half up: the integer \<open>k\<close> with \<open>k - 1/2 \<le> x < k + 1/2\<close>.\<close>

definition rounds_half_up :: "rat \<Rightarrow> int \<Rightarrow> bool" where
  "rounds_half_up x k = (of_int k - 1 / 2 \<le> x \<and> x < of_int k + 1 / 2)"

section \<open>Example inputs\<close>

text \<open>A metrics object with every counter at zero.\<close>

definition zero_metrics :: metrics where
  "zero_metrics =
     \<lparr> filename = ''unknown'', totalLines = 0, codeLines = 0,
       commentLines = 0, blankLines = 0, avgLineLength = 0, longestLine = 0,
       shortestNonEmptyLine = 0, exclamationMarks = 0, questionMarks = 0,
       positiveWords = 0, negativeWords = 0, stressWords = 0, todoCount = 0,
       fixmeCount = 0, hackCount = 0, functionCount = 0,
       variableDeclarations = 0, nestingDepth = 0, hasTests = False \<rparr>"

text \<open>
  A file of 100 lines without a comment, nested six deep: mysterious by its flag,
  chaotic by the priority of the selection.
\<close>

definition deep_uncommented :: metrics where
  "deep_uncommented =
     zero_metrics\<lparr>totalLines := 100, codeLines := 99, blankLines := 1,
       avgLineLength := 12, longestLine := 40, shortestNonEmptyLine := 1,
       functionCount := 4, variableDeclarations := 9, nestingDepth := 6\<rparr>"

text \<open>The same file nested three deep (the metrics of the test of the mysterious mood).\<close>

definition flat_uncommented :: metrics where
  "flat_uncommented =
     zero_metrics\<lparr>totalLines := 100, codeLines := 99, blankLines := 1,
       nestingDepth := 3, longestLine := 100\<rparr>"

text \<open>The two results of the aggregate test, with the scores 70 and 35.\<close>

definition result_happy :: analysis where
  "result_happy =
     \<lparr> metrics = zero_metrics\<lparr>totalLines := 100, codeLines := 80, commentLines := 10,
                   blankLines := 10, positiveWords := 5, negativeWords := 1, todoCount := 1,
                   functionCount := 5\<rparr>,
       moodResult = \<lparr> mood = happy, score = 70, emoji = MOOD_EMOJIS happy,
                      description = MOOD_DESCRIPTIONS happy, isZen = False,
                      isChaotic = False, isMysterious = False \<rparr>,
       suggestions = [] \<rparr>"

definition result_stressed :: analysis where
  "result_stressed =
     \<lparr> metrics = zero_metrics\<lparr>totalLines := 50, codeLines := 40, commentLines := 5,
                   blankLines := 5, positiveWords := 2, negativeWords := 3, stressWords := 2,
                   todoCount := 3, fixmeCount := 2, hackCount := 1,
                   functionCount := 3\<rparr>,
       moodResult = \<lparr> mood = stressed, score = 35, emoji = MOOD_EMOJIS stressed,
                      description = MOOD_DESCRIPTIONS stressed, isZen = False,
                      isChaotic = False, isMysterious = False \<rparr>,
       suggestions = [] \<rparr>"

section \<open>Properties of determineMood\<close>

lemma or_one_max: "or_one x = max x 1"
  by (simp add: or_one_def max_def)

lemma quot_commentRatio:
  "quot (commentLines m) (or_one (codeLines m)) = spec_commentRatio m"
  by (simp add: quot_def spec_commentRatio_def or_one_max)

lemma quot_punctuationDensity:
  "quot (exclamationMarks m + questionMarks m) (or_one (totalLines m))
     = spec_punctuationDensity m"
  by (simp add: quot_def spec_punctuationDensity_def or_one_max)

text \<open>
  The chain of assignments to \<open>moodScore\<close> adds up to the raw score of the
  specification.
\<close>

lemma raw_score_chain:
  "(let moodScore = (50 :: int);
        commentRatio = spec_commentRatio m;
        moodScore =
          (if commentRatio \<ge> 0.2 then moodScore + 15
           else if commentRatio \<ge> 0.1 then moodScore + 5
           else if commentRatio < 0.05 then moodScore - 10
           else moodScore);
        moodScore = moodScore + int (positiveWords m) * 5;
        moodScore = moodScore - int (negativeWords m) * 8;
        moodScore = moodScore - int (stressWords m) * 10;
        moodScore = moodScore - int (todoCount m) * 3;
        moodScore = moodScore - int (fixmeCount m) * 5;
        moodScore = moodScore - int (hackCount m) * 7;
        moodScore =
          (if nestingDepth m > 5 then moodScore - 15
           else if nestingDepth m > 3 then moodScore - 5
           else moodScore);
        moodScore =
          (if longestLine m > 150 then moodScore - 10
           else if longestLine m > 100 then moodScore - 5
           else moodScore);
        punctuationDensity = spec_punctuationDensity m;
        moodScore = (if punctuationDensity > 0.5 then moodScore - 15 else moodScore);
        moodScore = (if hasTests m then moodScore + 10 else moodScore)
    in moodScore) = spec_rawScore m"
  by (simp add: spec_rawScore_def spec_commentAdjustment_def Let_def)

lemma determineMood_unfold:
  "determineMood m =
     (let z = spec_isZen m; c = spec_isChaotic m; y = spec_isMysterious m;
          k = spec_selectMood z c y (spec_rawScore m)
      in \<lparr> mood = k, score = max 0 (min 100 (spec_rawScore m)),
           emoji = MOOD_EMOJIS k, description = MOOD_DESCRIPTIONS k,
           isZen = z, isChaotic = c, isMysterious = y \<rparr>)"
  unfolding determineMood_def quot_commentRatio quot_punctuationDensity Let_def
  unfolding raw_score_chain [unfolded Let_def]
  unfolding spec_selectMood_def spec_isZen_def spec_isChaotic_def spec_isMysterious_def
  by (rule refl)

lemma mood_determineMood:
  "mood (determineMood m) =
     spec_selectMood (spec_isZen m) (spec_isChaotic m) (spec_isMysterious m) (spec_rawScore m)"
  by (simp add: determineMood_unfold Let_def)

lemma score_determineMood: "score (determineMood m) = max 0 (min 100 (spec_rawScore m))"
  by (simp add: determineMood_unfold Let_def)

lemma flags_determineMood:
  "isZen (determineMood m) = spec_isZen m"
  "isChaotic (determineMood m) = spec_isChaotic m"
  "isMysterious (determineMood m) = spec_isMysterious m"
  by (simp_all add: determineMood_unfold Let_def)

lemma raw_deep: "spec_rawScore deep_uncommented = 25"
  by (simp add: spec_rawScore_def spec_commentAdjustment_def spec_commentRatio_def
      spec_punctuationDensity_def deep_uncommented_def zero_metrics_def)

lemma raw_flat: "spec_rawScore flat_uncommented = 40"
  by (simp add: spec_rawScore_def spec_commentAdjustment_def spec_commentRatio_def
      spec_punctuationDensity_def flat_uncommented_def zero_metrics_def)

text \<open>
  Every threshold of the selection lies inside \<open>[0, 100]\<close>, so the selection on the
  clamped score would pick the same mood as the selection on the raw score.
\<close>

lemma selectMood_clamp: "spec_selectMood z c y (spec_clamp s) = spec_selectMood z c y s"
  by (simp add: spec_selectMood_def spec_clamp_def)

text \<open>
  Claim C1.  For every metrics record the score starts at 50 and accumulates exactly
  the adjustments of the specification (\<open>spec_rawScore\<close>, with the comment ratio
  \<open>commentLines / max(codeLines, 1)\<close>); the reported score is this raw value clamped
  to \<open>[0, 100]\<close>, and the selection of the mood compares the raw value, not the
  clamped one.
\<close>

theorem determineMood_score:
  "score (determineMood m) = spec_clamp (spec_rawScore m)
   \<and> 0 \<le> score (determineMood m) \<and> score (determineMood m) \<le> 100
   \<and> mood (determineMood m) =
       spec_selectMood (isZen (determineMood m)) (isChaotic (determineMood m))
         (isMysterious (determineMood m)) (spec_rawScore m)"
  by (simp add: score_determineMood mood_determineMood flags_determineMood spec_clamp_def)

text \<open>
  Claim C2.  For every metrics record the mood is selected in the priority order zen
  (flag and raw score at least 60), chaotic (flag and raw score below 40), mysterious
  (flag), then the score thresholds 80, 65, 55, 45, 35, 25; the three flags are
  functions of the metrics alone and are returned in the verdict.
\<close>

theorem determineMood_priority:
  "mood (determineMood m) =
     spec_selectMood (spec_isZen m) (spec_isChaotic m) (spec_isMysterious m) (spec_rawScore m)
   \<and> isZen (determineMood m) = spec_isZen m
   \<and> isChaotic (determineMood m) = spec_isChaotic m
   \<and> isMysterious (determineMood m) = spec_isMysterious m"
  by (simp add: mood_determineMood flags_determineMood)

text \<open>
  Claim C4 as stated fails: a record with comment ratio below 0.02 and more than 50
  lines that is nested six deep has the raw score 25 and the chaotic flag, and the
  chaotic branch is tried before the mysterious one.
\<close>

theorem mysterious_counterexample:
  "spec_commentRatio deep_uncommented < 0.02 \<and> totalLines deep_uncommented > 50
   \<and> mood (determineMood deep_uncommented) = chaotic
   \<and> mood (determineMood deep_uncommented) \<noteq> mysterious"
proof -
  have r: "spec_commentRatio deep_uncommented = 0"
    by (simp add: spec_commentRatio_def deep_uncommented_def zero_metrics_def)
  have t: "totalLines deep_uncommented = 100"
    by (simp add: deep_uncommented_def zero_metrics_def)
  have c: "spec_isChaotic deep_uncommented"
    by (simp add: spec_isChaotic_def deep_uncommented_def zero_metrics_def)
  have z: "\<not> spec_isZen deep_uncommented"
    by (simp add: spec_isZen_def r)
  show ?thesis
    by (simp add: mood_determineMood raw_deep spec_selectMood_def r t c z)
qed

text \<open>
  Claim C4, amended.  For every metrics record with comment ratio below 0.02 and
  more than 50 lines the flag \<open>isMysterious\<close> is true, and the mood is mysterious
  unless the record is chaotic with a raw score below 40, in which case the mood is
  chaotic.
\<close>

theorem mysterious_unless_chaotic:
  assumes "spec_commentRatio m < 0.02" and "totalLines m > 50"
  shows "isMysterious (determineMood m)
         \<and> mood (determineMood m) =
             (if spec_isChaotic m \<and> spec_rawScore m < 40 then chaotic else mysterious)"
  using assms
  by (simp add: mood_determineMood flags_determineMood spec_selectMood_def spec_isZen_def
      spec_isMysterious_def)

text \<open>The amended claim C4 at the metrics of the test of the mysterious mood.\<close>

theorem mysterious_unless_chaotic_witness:
  "spec_commentRatio flat_uncommented < 0.02 \<and> totalLines flat_uncommented > 50
   \<and> isMysterious (determineMood flat_uncommented)
   \<and> mood (determineMood flat_uncommented) = mysterious"
proof -
  have r: "spec_commentRatio flat_uncommented < 0.02"
    by (simp add: spec_commentRatio_def flat_uncommented_def zero_metrics_def)
  have t: "totalLines flat_uncommented > 50"
    by (simp add: flat_uncommented_def zero_metrics_def)
  show ?thesis
    using mysterious_unless_chaotic [OF r t] r t by (simp add: raw_flat)
qed

text \<open>
  Claim C8.  Two metrics records that agree on commentLines, codeLines,
  positiveWords, negativeWords, stressWords, todoCount, fixmeCount, hackCount,
  nestingDepth, longestLine, exclamationMarks, questionMarks, totalLines and hasTests
  have the same verdict, whatever their other fields are.
\<close>

theorem determineMood_relevant_fields:
  assumes "commentLines m1 = commentLines m2" and "codeLines m1 = codeLines m2"
    and "positiveWords m1 = positiveWords m2" and "negativeWords m1 = negativeWords m2"
    and "stressWords m1 = stressWords m2" and "todoCount m1 = todoCount m2"
    and "fixmeCount m1 = fixmeCount m2" and "hackCount m1 = hackCount m2"
    and "nestingDepth m1 = nestingDepth m2" and "longestLine m1 = longestLine m2"
    and "exclamationMarks m1 = exclamationMarks m2"
    and "questionMarks m1 = questionMarks m2"
    and "totalLines m1 = totalLines m2" and "hasTests m1 = hasTests m2"
  shows "determineMood m1 = determineMood m2"
  unfolding determineMood_def by (simp only: assms)

text \<open>
  Claim C8 at two records that differ in the filename, blankLines, avgLineLength,
  shortestNonEmptyLine, functionCount and variableDeclarations.
\<close>

theorem determineMood_relevant_fields_witness:
  "flat_uncommented \<noteq>
     flat_uncommented\<lparr>filename := ''other.js'', blankLines := 7, avgLineLength := 30,
       shortestNonEmptyLine := 2, functionCount := 9, variableDeclarations := 4\<rparr>
   \<and> determineMood flat_uncommented =
     determineMood (flat_uncommented\<lparr>filename := ''other.js'', blankLines := 7,
       avgLineLength := 30, shortestNonEmptyLine := 2, functionCount := 9,
       variableDeclarations := 4\<rparr>)"
proof
  show "flat_uncommented \<noteq>
     flat_uncommented\<lparr>filename := ''other.js'', blankLines := 7, avgLineLength := 30,
       shortestNonEmptyLine := 2, functionCount := 9, variableDeclarations := 4\<rparr>"
    by (simp add: flat_uncommented_def zero_metrics_def)
  show "determineMood flat_uncommented =
     determineMood (flat_uncommented\<lparr>filename := ''other.js'', blankLines := 7,
       avgLineLength := 30, shortestNonEmptyLine := 2, functionCount := 9,
       variableDeclarations := 4\<rparr>)"
    by (rule determineMood_relevant_fields) simp_all
qed

section \<open>Properties of generateSuggestions\<close>

lemma push_if: "(if c then push xs x else xs) = xs @ (if c then [x] else [])"
  by (simp add: push_def)

lemma filter_fst_Cons:
  "map snd (filter fst ((c, x) # ps)) = (if c then [x] else []) @ map snd (filter fst ps)"
  by simp

text \<open>
  Claim C6.  For every metrics record and verdict, \<open>generateSuggestions\<close> returns
  exactly the suggestions whose check holds, in the fixed order of the eight checks
  (\<open>spec_checks\<close>); the checks do not depend on each other.
\<close>

theorem generateSuggestions_spec: "generateSuggestions m r = spec_suggest m r"
  unfolding generateSuggestions_def spec_suggest_def spec_checks_def Let_def push_if
    quot_commentRatio filter_fst_Cons
  by (simp only: append_Nil append_Nil2 append_assoc list.map filter.simps)

section \<open>Properties of analyzeCode\<close>

lemma length_split_from: "length (split_from cur s) = count_list s LF + 1"
  by (induction s arbitrary: cur) simp_all

lemma length_split_lines: "length (split_lines s) = count_list s LF + 1"
  by (simp add: split_lines_def length_split_from)

lemma startsWith_take:
  "startsWith t ''//'' = (take 2 t = ''//'')"
  "startsWith t ''/*'' = (take 2 t = ''/*'')"
  "startsWith t ''*'' = (take 1 t = ''*'')"
  by (simp_all add: startsWith_def numeral_2_eq_2)

lemma scan_line_fields:
  "totalLines (acc (scan_line st l)) = totalLines (acc st)
   \<and> blankLines (acc (scan_line st l)) =
       blankLines (acc st) + (if spec_classify l = Blank then 1 else 0)
   \<and> commentLines (acc (scan_line st l)) =
       commentLines (acc st) + (if spec_classify l = Comment then 1 else 0)
   \<and> codeLines (acc (scan_line st l)) =
       codeLines (acc st) + (if spec_classify l = Code then 1 else 0)
   \<and> longestLine (acc (scan_line st l)) =
       (if spec_classify l = Blank then longestLine (acc st)
        else max (longestLine (acc st)) (length (trim l)))
   \<and> shortestNonEmptyLine (acc (scan_line st l)) =
       (if spec_classify l = Blank then shortestNonEmptyLine (acc st)
        else min (shortestNonEmptyLine (acc st)) (enat (length (trim l))))
   \<and> totalLength (scan_line st l) =
       (if spec_classify l = Blank then totalLength st
        else totalLength st + length (trim l))"
proof -
  define t where "t = trim l"
  define m1 where "m1 =
    (if t = [] then (acc st)\<lparr>blankLines := blankLines (acc st) + 1\<rparr>
     else if startsWith t ''//'' \<or> startsWith t ''/*'' \<or> startsWith t ''*''
     then (acc st)\<lparr>commentLines := commentLines (acc st) + 1\<rparr>
     else (acc st)\<lparr>codeLines := codeLines (acc st) + 1\<rparr>)"
  define m2 where "m2 =
    (if length t > 0
     then m1\<lparr>longestLine := max (longestLine m1) (length t),
            shortestNonEmptyLine := min (shortestNonEmptyLine m1) (enat (length t))\<rparr>
     else m1)"
  define m3 where
    "m3 = m2\<lparr>exclamationMarks := exclamationMarks m2 + count_matches l (RLit ''!'')\<rparr>"
  define m4 where
    "m4 = m3\<lparr>questionMarks := questionMarks m3 + count_matches l (RLit ''?'')\<rparr>"
  define m5 where "m5 =
    (if rx_test function_rx l then m4\<lparr>functionCount := functionCount m4 + 1\<rparr> else m4)"
  define m6 where "m6 =
    (if rx_test variable_rx l
     then m5\<lparr>variableDeclarations := variableDeclarations m5 + 1\<rparr> else m5)"
  have a: "acc (scan_line st l) = m6"
    unfolding scan_line_def Let_def m6_def m5_def m4_def m3_def m2_def m1_def t_def
    by simp
  have len: "totalLength (scan_line st l) =
      (if length t > 0 then totalLength st + length t else totalLength st)"
    unfolding scan_line_def Let_def t_def by simp
  have k: "spec_classify l = (if t = [] then Blank
      else if startsWith t ''//'' \<or> startsWith t ''/*'' \<or> startsWith t ''*'' then Comment
      else Code)"
    by (simp add: spec_classify_def startsWith_take t_def Let_def)
  have f6: "totalLines m6 = totalLines m1" "blankLines m6 = blankLines m1"
    "commentLines m6 = commentLines m1" "codeLines m6 = codeLines m1"
    "longestLine m6 = longestLine m2" "shortestNonEmptyLine m6 = shortestNonEmptyLine m2"
    by (simp_all add: m6_def m5_def m4_def m3_def m2_def)
  have f1: "totalLines m1 = totalLines (acc st)"
    "blankLines m1 = blankLines (acc st) + (if spec_classify l = Blank then 1 else 0)"
    "commentLines m1 = commentLines (acc st) + (if spec_classify l = Comment then 1 else 0)"
    "codeLines m1 = codeLines (acc st) + (if spec_classify l = Code then 1 else 0)"
    "longestLine m1 = longestLine (acc st)"
    "shortestNonEmptyLine m1 = shortestNonEmptyLine (acc st)"
    by (simp_all add: m1_def k)
  have f2: "longestLine m2 =
      (if t = [] then longestLine m1 else max (longestLine m1) (length t))"
    "shortestNonEmptyLine m2 =
      (if t = [] then shortestNonEmptyLine m1
       else min (shortestNonEmptyLine m1) (enat (length t)))"
    by (simp_all add: m2_def)
  have b: "(spec_classify l = Blank) = (t = [])"
    by (simp add: k)
  show ?thesis
    unfolding a len f6 f2 f1 b by (simp add: t_def)
qed

lemma scan_totalLines:
  "totalLines (acc (foldl scan_line st ls)) = totalLines (acc st)"
  by (induction ls arbitrary: st) (simp_all add: scan_line_fields)

lemma scan_blankLines:
  "blankLines (acc (foldl scan_line st ls)) = blankLines (acc st) + count_kind Blank ls"
  by (induction ls arbitrary: st) (simp_all add: scan_line_fields count_kind_def)

lemma scan_commentLines:
  "commentLines (acc (foldl scan_line st ls)) = commentLines (acc st) + count_kind Comment ls"
  by (induction ls arbitrary: st) (simp_all add: scan_line_fields count_kind_def)

lemma scan_codeLines:
  "codeLines (acc (foldl scan_line st ls)) = codeLines (acc st) + count_kind Code ls"
  by (induction ls arbitrary: st) (simp_all add: scan_line_fields count_kind_def)

lemma scan_blank_lengths:
  assumes "\<forall>l \<in> set ls. spec_classify l = Blank"
  shows "longestLine (acc (foldl scan_line st ls)) = longestLine (acc st)
       \<and> shortestNonEmptyLine (acc (foldl scan_line st ls)) = shortestNonEmptyLine (acc st)
       \<and> totalLength (foldl scan_line st ls) = totalLength st"
  using assms
  by (induction ls arbitrary: st) (simp_all add: scan_line_fields)

lemma count_kinds_total:
  "count_kind Code ls + count_kind Comment ls + count_kind Blank ls = length ls"
proof (induction ls)
  case Nil
  show ?case by (simp add: count_kind_def)
next
  case (Cons l ls)
  then show ?case by (cases "spec_classify l") (simp_all add: count_kind_def)
qed

lemma length_filter_all:
  "length (filter P xs) = length xs \<Longrightarrow> \<forall>x \<in> set xs. P x"
proof (induction xs)
  case Nil
  show ?case by simp
next
  case (Cons x xs)
  have le: "length (filter P xs) \<le> length xs" by (rule length_filter_le)
  show ?case
  proof (cases "P x")
    case True
    with Cons.prems have "length (filter P xs) = length xs" by simp
    then have "\<forall>x \<in> set xs. P x" by (rule Cons.IH)
    with True show ?thesis by simp
  next
    case False
    with Cons.prems have "length (filter P xs) = Suc (length xs)" by simp
    with le show ?thesis by simp
  qed
qed

lemma count_kind_all:
  "count_kind k ls = length ls \<Longrightarrow> \<forall>l \<in> set ls. spec_classify l = k"
  unfolding count_kind_def by (rule length_filter_all)

text \<open>The fields of the result in terms of the state after the line loop.\<close>

lemma analyzeCode_fields:
  fixes code fname
  defines "st \<equiv> foldl scan_line
     \<lparr> acc = \<lparr> filename = fname, totalLines = length (split_lines code), codeLines = 0,
               commentLines = 0, blankLines = 0, avgLineLength = 0, longestLine = 0,
               shortestNonEmptyLine = \<infinity>, exclamationMarks = 0, questionMarks = 0,
               positiveWords = 0, negativeWords = 0, stressWords = 0, todoCount = 0,
               fixmeCount = 0, hackCount = 0, functionCount = 0,
               variableDeclarations = 0, nestingDepth = 0, hasTests = False \<rparr>,
       currentDepth = 0, maxDepth = 0, totalLength = 0 \<rparr> (split_lines code)"
  shows "totalLines (analyzeCode code fname) = totalLines (acc st)"
    and "blankLines (analyzeCode code fname) = blankLines (acc st)"
    and "commentLines (analyzeCode code fname) = commentLines (acc st)"
    and "codeLines (analyzeCode code fname) = codeLines (acc st)"
    and "longestLine (analyzeCode code fname) = longestLine (acc st)"
    and "shortestNonEmptyLine (analyzeCode code fname) =
          (if shortestNonEmptyLine (acc st) = \<infinity> then 0 else shortestNonEmptyLine (acc st))"
    and "avgLineLength (analyzeCode code fname) =
          (if int (totalLines (acc st)) - int (blankLines (acc st)) > 0
           then nat (js_round (of_nat (totalLength st)
                  / of_int (int (totalLines (acc st)) - int (blankLines (acc st)))))
           else 0)"
    and "hasTests (analyzeCode code fname) = rx_test tests_rx code"
proof -
  define m1 where "m1 = (acc st)\<lparr>avgLineLength :=
     (if int (totalLines (acc st)) - int (blankLines (acc st)) > 0
      then nat (js_round (of_nat (totalLength st)
             / of_int (int (totalLines (acc st)) - int (blankLines (acc st)))))
      else 0)\<rparr>"
  define m2 where "m2 = m1\<lparr>nestingDepth := nat (maxDepth st)\<rparr>"
  define m3 where
    "m3 = (if shortestNonEmptyLine m2 = \<infinity> then m2\<lparr>shortestNonEmptyLine := 0\<rparr> else m2)"
  define m4 where
    "m4 = m3\<lparr>positiveWords := count_words positive_words code (positiveWords m3)\<rparr>"
  define m5 where
    "m5 = m4\<lparr>negativeWords := count_words negative_words code (negativeWords m4)\<rparr>"
  define m6 where
    "m6 = m5\<lparr>stressWords := count_words stress_words code (stressWords m5)\<rparr>"
  define m7 where "m7 = m6\<lparr>todoCount := count_matches (toLowerCase code) (RLit ''todo'')\<rparr>"
  define m8 where "m8 = m7\<lparr>fixmeCount := count_matches (toLowerCase code) (RLit ''fixme'')\<rparr>"
  define m9 where "m9 = m8\<lparr>hackCount := count_matches (toLowerCase code) (RLit ''hack'')\<rparr>"
  define m10 where "m10 = m9\<lparr>hasTests := rx_test tests_rx code\<rparr>"
  have a: "analyzeCode code fname = m10"
    unfolding analyzeCode_def Let_def m10_def m9_def m8_def m7_def m6_def m5_def m4_def
      m3_def m2_def m1_def st_def
    by (rule refl)
  have up: "totalLines m10 = totalLines m3" "blankLines m10 = blankLines m3"
    "commentLines m10 = commentLines m3" "codeLines m10 = codeLines m3"
    "longestLine m10 = longestLine m3" "shortestNonEmptyLine m10 = shortestNonEmptyLine m3"
    "avgLineLength m10 = avgLineLength m3" "hasTests m10 = rx_test tests_rx code"
    by (simp_all add: m10_def m9_def m8_def m7_def m6_def m5_def m4_def)
  have mid: "totalLines m3 = totalLines m2" "blankLines m3 = blankLines m2"
    "commentLines m3 = commentLines m2" "codeLines m3 = codeLines m2"
    "longestLine m3 = longestLine m2" "avgLineLength m3 = avgLineLength m2"
    "shortestNonEmptyLine m3 =
       (if shortestNonEmptyLine m2 = \<infinity> then 0 else shortestNonEmptyLine m2)"
    by (simp_all add: m3_def)
  have low: "totalLines m2 = totalLines (acc st)" "blankLines m2 = blankLines (acc st)"
    "commentLines m2 = commentLines (acc st)" "codeLines m2 = codeLines (acc st)"
    "longestLine m2 = longestLine (acc st)"
    "shortestNonEmptyLine m2 = shortestNonEmptyLine (acc st)"
    "avgLineLength m2 =
       (if int (totalLines (acc st)) - int (blankLines (acc st)) > 0
        then nat (js_round (of_nat (totalLength st)
               / of_int (int (totalLines (acc st)) - int (blankLines (acc st)))))
        else 0)"
    by (simp_all add: m2_def m1_def)
  show "totalLines (analyzeCode code fname) = totalLines (acc st)"
    and "blankLines (analyzeCode code fname) = blankLines (acc st)"
    and "commentLines (analyzeCode code fname) = commentLines (acc st)"
    and "codeLines (analyzeCode code fname) = codeLines (acc st)"
    and "longestLine (analyzeCode code fname) = longestLine (acc st)"
    and "shortestNonEmptyLine (analyzeCode code fname) =
          (if shortestNonEmptyLine (acc st) = \<infinity> then 0 else shortestNonEmptyLine (acc st))"
    and "avgLineLength (analyzeCode code fname) =
          (if int (totalLines (acc st)) - int (blankLines (acc st)) > 0
           then nat (js_round (of_nat (totalLength st)
                  / of_int (int (totalLines (acc st)) - int (blankLines (acc st)))))
           else 0)"
    and "hasTests (analyzeCode code fname) = rx_test tests_rx code"
    unfolding a up mid low by (rule refl)+
qed

lemma analyzeCode_totalLines:
  "totalLines (analyzeCode code fname) = length (split_lines code)"
  by (simp add: analyzeCode_fields scan_totalLines)

lemma analyzeCode_blankLines:
  "blankLines (analyzeCode code fname) = count_kind Blank (split_lines code)"
  by (simp add: analyzeCode_fields scan_blankLines)

lemma analyzeCode_commentLines:
  "commentLines (analyzeCode code fname) = count_kind Comment (split_lines code)"
  by (simp add: analyzeCode_fields scan_commentLines)

lemma analyzeCode_codeLines:
  "codeLines (analyzeCode code fname) = count_kind Code (split_lines code)"
  by (simp add: analyzeCode_fields scan_codeLines)

lemma analyzeCode_all_blank:
  assumes "blankLines (analyzeCode code fname) = totalLines (analyzeCode code fname)"
  shows "avgLineLength (analyzeCode code fname) = 0
       \<and> longestLine (analyzeCode code fname) = 0
       \<and> shortestNonEmptyLine (analyzeCode code fname) = 0"
proof -
  have e: "count_kind Blank (split_lines code) = length (split_lines code)"
    using assms by (simp add: analyzeCode_totalLines analyzeCode_blankLines)
  then have b: "\<forall>l \<in> set (split_lines code). spec_classify l = Blank"
    by (rule count_kind_all)
  note u = scan_blank_lengths [OF b]
  show ?thesis
    by (simp add: analyzeCode_fields u scan_totalLines scan_blankLines e)
qed

lemma tests_edit: "rx_test tests_rx ''edit(x);''"
  by (simp add: rx_test_def tests_rx_def is_space_def)

lemma standalone_edit: "\<not> rx_test standalone_tests_rx ''edit(x);''"
  by (simp add: rx_test_def standalone_tests_rx_def tests_rx_def is_space_def is_word_def
      word_before_def word_after_def)

lemma scan_empty_line:
  "scan_line st [] =
     \<lparr> acc = (acc st)\<lparr>blankLines := blankLines (acc st) + 1\<rparr>,
       currentDepth = currentDepth st, maxDepth = max (maxDepth st) (currentDepth st),
       totalLength = totalLength st \<rparr>"
proof -
  have c: "count_matches [] (RLit w) = (if w = [] then 1 else 0)" for w
    by (cases w) (simp_all add: count_matches_def match_g_def or_nil_def)
  have f: "\<not> rx_test function_rx []"
    by (simp add: rx_test_def function_rx_def word_before_def word_after_def)
  have v: "\<not> rx_test variable_rx []"
    by (simp add: rx_test_def variable_rx_def)
  show ?thesis
    by (simp add: scan_line_def trim_def c f v Let_def)
qed

lemma count_words_empty: "count_words ws [] n = n"
proof (induction ws arbitrary: n)
  case Nil
  show ?case by (simp add: count_words_def)
next
  case (Cons w ws)
  have "count_matches [] (word_rx w) = 0"
    by (simp add: count_matches_def match_g_def or_nil_def word_rx_def word_before_def
        word_after_def)
  with Cons show ?case by (simp add: count_words_def)
qed

lemma analyzeCode_empty:
  "analyzeCode [] fname =
     \<lparr> filename = fname, totalLines = 1, codeLines = 0,
       commentLines = 0, blankLines = 1, avgLineLength = 0, longestLine = 0,
       shortestNonEmptyLine = 0, exclamationMarks = 0, questionMarks = 0,
       positiveWords = 0, negativeWords = 0, stressWords = 0, todoCount = 0,
       fixmeCount = 0, hackCount = 0, functionCount = 0,
       variableDeclarations = 0, nestingDepth = 0, hasTests = False \<rparr>"
proof -
  have c: "count_matches [] (RLit (x # xs)) = 0" for x xs
    by (simp add: count_matches_def match_g_def or_nil_def)
  have t: "\<not> rx_test tests_rx []"
    by (simp add: rx_test_def tests_rx_def)
  show ?thesis
    by (simp add: analyzeCode_def split_lines_def scan_empty_line count_words_empty
        toLowerCase_def c t)
qed

text \<open>
  The two conversions to \<^typ>\<open>nat\<close> in \<open>analyzeCode\<close> never cut a negative number:
  \<open>maxDepth\<close> starts at 0 and only grows, and the rounded average of lengths is not
  negative.
\<close>

lemma js_round_nonneg: "0 \<le> x \<Longrightarrow> 0 \<le> js_round x"
  by (simp add: js_round_def)

lemma scan_line_maxDepth: "maxDepth st \<le> maxDepth (scan_line st l)"
  by (simp add: scan_line_def Let_def)

lemma scan_maxDepth: "maxDepth st \<le> maxDepth (foldl scan_line st ls)"
proof (induction ls arbitrary: st)
  case Nil
  show ?case by simp
next
  case (Cons l ls)
  have "maxDepth st \<le> maxDepth (scan_line st l)" by (rule scan_line_maxDepth)
  also have "\<dots> \<le> maxDepth (foldl scan_line (scan_line st l) ls)" by (rule Cons.IH)
  finally show ?case by simp
qed

text \<open>
  The matcher on small inputs: whole words against substrings (\<open>hacking\<close> is a hit
  for the marker count, not for the word count), the function and the variable
  heuristics, and the rounding.
\<close>

lemma match_words_example:
  "count_matches ''Hack hacking HACK'' (word_rx ''hack'') = 2"
  by code_simp

lemma match_substring_example:
  "count_matches (toLowerCase ''Hack hacking HACK'') (RLit ''hack'') = 3"
  by code_simp

lemma function_rx_examples:
  "rx_test function_rx ''function one() {}''"
  "rx_test function_rx ''const two = function() {};''"
  "rx_test function_rx ''const three = () => {};''"
  "\<not> rx_test function_rx ''return one(2);''"
  by code_simp+

lemma variable_rx_examples:
  "rx_test variable_rx ''  let total = 0;''"
  "\<not> rx_test variable_rx ''letter = 0;''"
  by code_simp+

lemma js_round_examples: "js_round (105 / 2) = 53" "js_round (- 5 / 2) = - 2"
  by (simp_all add: js_round_def)

text \<open>
  Claim C3.  For every text, the code, comment and blank lines of the metrics add up
  to \<open>totalLines\<close>, which is the number of segments between line feeds (one more
  than the number of line feeds), and each of the three counters is the number of
  lines of its kind, where every line has exactly one kind (\<open>spec_classify\<close>).
\<close>

theorem analyzeCode_line_partition:
  "codeLines (analyzeCode code fname) + commentLines (analyzeCode code fname)
     + blankLines (analyzeCode code fname) = totalLines (analyzeCode code fname)
   \<and> totalLines (analyzeCode code fname) = count_list code LF + 1
   \<and> blankLines (analyzeCode code fname) = count_kind Blank (split_lines code)
   \<and> commentLines (analyzeCode code fname) = count_kind Comment (split_lines code)
   \<and> codeLines (analyzeCode code fname) = count_kind Code (split_lines code)"
  by (simp add: analyzeCode_totalLines analyzeCode_blankLines analyzeCode_commentLines
      analyzeCode_codeLines count_kinds_total length_split_lines)

text \<open>
  Claim C5.  \<open>analyzeCode\<close> has no failing branch: every \<open>match\<close> result passes
  through \<open>|| []\<close> before its length is read, and the model is a total function
  into metrics records.  For every text the record has at least one line and a finite
  \<open>shortestNonEmptyLine\<close>; when no line is non-blank, \<open>avgLineLength\<close>,
  \<open>longestLine\<close> and \<open>shortestNonEmptyLine\<close> are 0; and the empty text gives one
  blank line, no code line and zero everywhere else.
\<close>

theorem analyzeCode_total:
  "1 \<le> totalLines (analyzeCode code fname)
   \<and> shortestNonEmptyLine (analyzeCode code fname) \<noteq> \<infinity>
   \<and> (blankLines (analyzeCode code fname) = totalLines (analyzeCode code fname) \<longrightarrow>
        avgLineLength (analyzeCode code fname) = 0
        \<and> longestLine (analyzeCode code fname) = 0
        \<and> shortestNonEmptyLine (analyzeCode code fname) = 0)
   \<and> analyzeCode [] fname =
       \<lparr> filename = fname, totalLines = 1, codeLines = 0,
         commentLines = 0, blankLines = 1, avgLineLength = 0, longestLine = 0,
         shortestNonEmptyLine = 0, exclamationMarks = 0, questionMarks = 0,
         positiveWords = 0, negativeWords = 0, stressWords = 0, todoCount = 0,
         fixmeCount = 0, hackCount = 0, functionCount = 0,
         variableDeclarations = 0, nestingDepth = 0, hasTests = False \<rparr>"
proof -
  have "1 \<le> totalLines (analyzeCode code fname)"
    by (simp add: analyzeCode_totalLines length_split_lines)
  moreover have "shortestNonEmptyLine (analyzeCode code fname) \<noteq> \<infinity>"
    by (simp add: analyzeCode_fields zero_enat_def)
  ultimately show ?thesis
    using analyzeCode_all_blank [of code fname] analyzeCode_empty [of fname] by blast
qed

text \<open>Claim C5 at a text of two blank lines: a space, a line feed and a tab.\<close>

theorem analyzeCode_total_witness:
  "blankLines (analyzeCode [CHR '' '', LF, CHR 0x09] ''blank.js'')
     = totalLines (analyzeCode [CHR '' '', LF, CHR 0x09] ''blank.js'')
   \<and> totalLines (analyzeCode [CHR '' '', LF, CHR 0x09] ''blank.js'') = 2
   \<and> avgLineLength (analyzeCode [CHR '' '', LF, CHR 0x09] ''blank.js'') = 0
   \<and> longestLine (analyzeCode [CHR '' '', LF, CHR 0x09] ''blank.js'') = 0
   \<and> shortestNonEmptyLine (analyzeCode [CHR '' '', LF, CHR 0x09] ''blank.js'') = 0"
proof -
  have s: "split_lines [CHR '' '', LF, CHR 0x09] = [[CHR '' ''], [CHR 0x09]]"
    by (simp add: split_lines_def LF_def)
  have t: "totalLines (analyzeCode [CHR '' '', LF, CHR 0x09] ''blank.js'') = 2"
    by (simp add: analyzeCode_totalLines s)
  have b: "blankLines (analyzeCode [CHR '' '', LF, CHR 0x09] ''blank.js'') = 2"
    by (simp add: analyzeCode_blankLines s count_kind_def spec_classify_def trim_def
        is_space_def)
  show ?thesis
    using analyzeCode_total [of "[CHR '' '', LF, CHR 0x09]" "''blank.js''"] t b by simp
qed

text \<open>
  Claim C9.  The test detection has no word boundary on its left: in the line
  \<open>edit(x);\<close> none of the five identifiers stands as a word of its own before a
  parenthesis, and \<open>hasTests\<close> is true all the same, by the \<open>it\<close> inside \<open>edit\<close>.
\<close>

theorem hasTests_no_left_boundary:
  "hasTests (analyzeCode ''edit(x);'' fname)
   \<and> \<not> rx_test standalone_tests_rx ''edit(x);''"
  by (simp add: analyzeCode_fields tests_edit standalone_edit)

section \<open>Properties of calculateAggregateMood\<close>

lemma find_append:
  "List.find P (xs @ ys) = (case List.find P xs of None \<Rightarrow> List.find P ys | Some x \<Rightarrow> Some x)"
  by (induction xs) simp_all

lemma find_map: "List.find P (map g xs) = map_option g (List.find (\<lambda>x. P (g x)) xs)"
  by (induction xs) simp_all

lemma find_filter_hd:
  "filter P xs \<noteq> [] \<Longrightarrow> List.find P xs = Some (hd (filter P xs))"
  by (induction xs) auto

lemma find_first_seen: "List.find P (rev (remdups (rev xs))) = List.find P xs"
proof (induction xs rule: rev_induct)
  case Nil
  show ?case by simp
next
  case (snoc x xs)
  show ?case
  proof (cases "x \<in> set xs")
    case True
    have "List.find P xs = None \<Longrightarrow> \<not> P x"
      using True by (auto simp: find_None_iff)
    then have "List.find P (xs @ [x]) = List.find P xs"
      by (cases "List.find P xs") (simp_all add: find_append)
    with True snoc show ?thesis by simp
  next
    case False
    with snoc show ?thesis by (simp add: find_append)
  qed
qed

text \<open>The first entry of a stable sort is the first entry with the least key.\<close>

lemma hd_sort_key_find:
  fixes f :: "'a \<Rightarrow> 'k::linorder"
  assumes "xs \<noteq> []"
  shows "List.find (\<lambda>x. \<forall>y \<in> set xs. f x \<le> f y) xs = Some (hd (sort_key f xs))"
proof -
  define s where "s = sort_key f xs"
  have ne: "s \<noteq> []"
    using assms by (metis length_sort s_def length_0_conv)
  then obtain h t where s: "s = h # t" by (cases s) auto
  have srt: "sorted (map f s)" by (simp add: s_def)
  have set: "set s = set xs" by (simp add: s_def)
  have least: "\<forall>y \<in> set xs. f h \<le> f y"
    using srt set s by auto
  have hx: "h \<in> set xs" using set s by auto
  have stab: "filter (\<lambda>y. f y = f h) s = filter (\<lambda>y. f y = f h) xs"
    unfolding s_def by (rule sort_key_stable)
  have hdf: "hd (filter (\<lambda>y. f y = f h) xs) = h" and nef: "filter (\<lambda>y. f y = f h) xs \<noteq> []"
    using stab [symmetric] s by simp_all
  have "List.find (\<lambda>x. \<forall>y \<in> set xs. f x \<le> f y) xs = List.find (\<lambda>y. f y = f h) xs"
  proof (rule find_cong [OF refl])
    fix x assume "x \<in> set xs"
    then show "(\<forall>y \<in> set xs. f x \<le> f y) = (f x = f h)"
      using least hx by (auto intro: antisym)
  qed
  also have "\<dots> = Some h"
    using find_filter_hd [OF nef] hdf by simp
  finally show ?thesis by (simp add: s_def [symmetric] s)
qed

lemma bump_map:
  "distinct ks \<Longrightarrow>
   bump (map (\<lambda>k. (k, f k)) ks) x =
     (if x \<in> set ks then map (\<lambda>k. (k, if k = x then f k + 1 else f k)) ks
      else map (\<lambda>k. (k, f k)) ks @ [(x, 1)])"
proof (induction ks)
  case Nil
  show ?case by simp
next
  case (Cons k ks)
  show ?case
  proof (cases "k = x")
    case True
    with Cons.prems have "x \<notin> set ks" by simp
    then have "map (\<lambda>k. (k, if k = x then f k + 1 else f k)) ks = map (\<lambda>k. (k, f k)) ks"
      by (intro map_cong) auto
    with True show ?thesis by simp
  next
    case False
    with Cons show ?thesis by simp
  qed
qed

text \<open>The tally: the labels in the order of their first occurrence, with their counts.\<close>

lemma tally_closed_form:
  "foldl bump [] ms = map (\<lambda>k. (k, count_list ms k)) (rev (remdups (rev ms)))"
proof (induction ms rule: rev_induct)
  case Nil
  show ?case by simp
next
  case (snoc x ms)
  define ks where "ks = rev (remdups (rev ms))"
  have d: "distinct ks" and st: "set ks = set ms" by (simp_all add: ks_def)
  have "foldl bump [] (ms @ [x]) = bump (map (\<lambda>k. (k, count_list ms k)) ks) x"
    using snoc by (simp add: ks_def)
  also have "\<dots> = map (\<lambda>k. (k, count_list (ms @ [x]) k)) (rev (remdups (rev (ms @ [x]))))"
  proof (cases "x \<in> set ms")
    case True
    then have r: "rev (remdups (rev (ms @ [x]))) = ks" by (simp add: ks_def)
    have "bump (map (\<lambda>k. (k, count_list ms k)) ks) x
        = map (\<lambda>k. (k, if k = x then count_list ms k + 1 else count_list ms k)) ks"
      using True by (simp add: bump_map [OF d] st)
    also have "\<dots> = map (\<lambda>k. (k, count_list (ms @ [x]) k)) ks"
      by (rule map_cong) auto
    finally show ?thesis by (simp only: r)
  next
    case False
    then have r: "rev (remdups (rev (ms @ [x]))) = ks @ [x]" by (simp add: ks_def)
    have c: "count_list (ms @ [x]) x = 1"
      using False by (simp add: count_list_0_iff)
    have b: "bump (map (\<lambda>k. (k, count_list ms k)) ks) x
        = map (\<lambda>k. (k, count_list ms k)) ks @ [(x, 1)]"
      using False by (simp add: bump_map [OF d] st)
    have m: "map (\<lambda>k. (k, count_list ms k)) ks
        = map (\<lambda>k. (k, count_list (ms @ [x]) k)) ks"
      using False st by (intro map_cong) auto
    show ?thesis
      unfolding r b by (simp only: map_append list.map c m)
  qed
  finally show ?case .
qed

lemma bump_nonempty: "bump es k \<noteq> []"
  by (cases es) (auto split: if_splits)

lemma tally_nonempty: "ms \<noteq> [] \<Longrightarrow> foldl bump [] ms \<noteq> []"
  by (cases ms rule: rev_cases) (simp_all add: bump_nonempty)

text \<open>The head of the sorted tally is the dominant mood of the specification.\<close>

lemma dominant_tally:
  assumes "ms \<noteq> []"
  shows "spec_dominant ms = Some (fst (hd (sort_entries (foldl bump [] ms))))"
proof -
  define ks where "ks = rev (remdups (rev ms))"
  define g where "g = (\<lambda>k. (k, count_list ms k))"
  define f where "f = (\<lambda>e :: mood \<times> nat. - int (snd e))"
  have T: "foldl bump [] ms = map g ks"
    by (simp add: tally_closed_form ks_def g_def)
  have st: "set ks = set ms" by (simp add: ks_def)
  have ne: "map g ks \<noteq> []" using assms T tally_nonempty by metis
  have "List.find (\<lambda>e. \<forall>y \<in> set (map g ks). f e \<le> f y) (map g ks)
      = Some (hd (sort_key f (map g ks)))"
    by (rule hd_sort_key_find [OF ne])
  moreover have "List.find (\<lambda>e. \<forall>y \<in> set (map g ks). f e \<le> f y) (map g ks)
      = map_option g (List.find (most_frequent ms) ks)"
  proof -
    have "most_frequent ms = (\<lambda>k. \<forall>k' \<in> set ms. count_list ms k' \<le> count_list ms k)"
      by (rule ext) (simp add: most_frequent_def list_all_iff)
    then show ?thesis by (simp add: find_map st f_def g_def)
  qed
  moreover have "List.find (most_frequent ms) ks = List.find (most_frequent ms) ms"
    unfolding ks_def by (rule find_first_seen)
  ultimately have "map_option g (spec_dominant ms) = Some (hd (sort_key f (map g ks)))"
    by (simp add: spec_dominant_def)
  then obtain k where k: "spec_dominant ms = Some k" and h: "g k = hd (sort_key f (map g ks))"
    by auto
  have "fst (hd (sort_entries (foldl bump [] ms))) = fst (g k)"
    by (simp add: sort_entries_def T h f_def)
  then show ?thesis by (simp add: k g_def)
qed

lemma rounds_half_up_js_round: "rounds_half_up x (js_round x)"
  unfolding rounds_half_up_def js_round_def by linarith

text \<open>The loop of the aggregation: sums, total score and tally.\<close>

lemma agg_fold_totals:
  "totals.totalLines (totals_acc (foldl agg_step st rs)) =
     totals.totalLines (totals_acc st) + field_sum totalLines rs"
  "totals.codeLines (totals_acc (foldl agg_step st rs)) =
     totals.codeLines (totals_acc st) + field_sum codeLines rs"
  "totals.commentLines (totals_acc (foldl agg_step st rs)) =
     totals.commentLines (totals_acc st) + field_sum commentLines rs"
  "totals.positiveWords (totals_acc (foldl agg_step st rs)) =
     totals.positiveWords (totals_acc st) + field_sum positiveWords rs"
  "totals.negativeWords (totals_acc (foldl agg_step st rs)) =
     totals.negativeWords (totals_acc st) + field_sum negativeWords rs"
  "totals.stressWords (totals_acc (foldl agg_step st rs)) =
     totals.stressWords (totals_acc st) + field_sum stressWords rs"
  "totals.todoCount (totals_acc (foldl agg_step st rs)) =
     totals.todoCount (totals_acc st) + field_sum todoCount rs"
  "totals.fixmeCount (totals_acc (foldl agg_step st rs)) =
     totals.fixmeCount (totals_acc st) + field_sum fixmeCount rs"
  "totals.hackCount (totals_acc (foldl agg_step st rs)) =
     totals.hackCount (totals_acc st) + field_sum hackCount rs"
  "totals.functionCount (totals_acc (foldl agg_step st rs)) =
     totals.functionCount (totals_acc st) + field_sum functionCount rs"
  by (induction rs arbitrary: st) (simp_all add: agg_step_def field_sum_def Let_def)

lemma agg_fold_score:
  "totalScore (foldl agg_step st rs) = totalScore st + sum_list (scores_of rs)"
  by (induction rs arbitrary: st) (simp_all add: agg_step_def scores_of_def Let_def)

lemma agg_fold_counts:
  "counts (foldl agg_step st rs) = foldl bump (counts st) (moods_of rs)"
  by (induction rs arbitrary: st) (simp_all add: agg_step_def moods_of_def Let_def)

lemma agg_counts: "counts (foldl agg_step agg_init rs) = foldl bump [] (moods_of rs)"
  by (simp add: agg_fold_counts agg_init_def)

lemma sorted_tally_nonempty:
  assumes "rs \<noteq> []"
  shows "sort_entries (counts (foldl agg_step agg_init rs)) \<noteq> []"
proof -
  have "foldl bump [] (moods_of rs) \<noteq> []"
    using assms by (intro tally_nonempty) (simp add: moods_of_def)
  then have "length (sort_entries (foldl bump [] (moods_of rs))) \<noteq> 0"
    by (simp add: sort_entries_def)
  then have "sort_entries (foldl bump [] (moods_of rs)) \<noteq> []"
    by simp
  then show ?thesis by (simp add: agg_counts)
qed

text \<open>The result for a list that is not empty.\<close>

lemma calculateAggregateMood_Inr:
  assumes "rs \<noteq> []"
  shows "calculateAggregateMood rs =
     Inr \<lparr> fileCount = length rs,
           totals = totals_acc (foldl agg_step agg_init rs),
           avgScore = round_div (totalScore (foldl agg_step agg_init rs)) (length rs),
           dominantMood = fst (hd (sort_entries (counts (foldl agg_step agg_init rs)))),
           moodCounts = counts (foldl agg_step agg_init rs) \<rparr>"
proof -
  obtain e es where "sort_entries (counts (foldl agg_step agg_init rs)) = e # es"
    using sorted_tally_nonempty [OF assms] by (auto simp: neq_Nil_conv)
  then show ?thesis
    by (simp add: calculateAggregateMood_def Let_def)
qed

lemma calculateAggregateMood_Nil: "calculateAggregateMood [] = Inl TypeError"
  by (simp add: calculateAggregateMood_def agg_init_def sort_entries_def)

text \<open>
  Claim C7 as stated fails in one point: not each numeric field of the metrics is
  summed.  Two inputs whose sums of \<open>variableDeclarations\<close> differ have the same
  aggregate, so the totals do not hold that sum.
\<close>

theorem variableDeclarations_not_aggregated:
  "field_sum variableDeclarations [result_happy] \<noteq>
     field_sum variableDeclarations
       [result_happy\<lparr>metrics := (metrics result_happy)\<lparr>variableDeclarations := 7\<rparr>\<rparr>]
   \<and> calculateAggregateMood [result_happy] =
     calculateAggregateMood
       [result_happy\<lparr>metrics := (metrics result_happy)\<lparr>variableDeclarations := 7\<rparr>\<rparr>]"
proof
  show "field_sum variableDeclarations [result_happy] \<noteq>
     field_sum variableDeclarations
       [result_happy\<lparr>metrics := (metrics result_happy)\<lparr>variableDeclarations := 7\<rparr>\<rparr>]"
    by (simp add: field_sum_def result_happy_def zero_metrics_def)
  show "calculateAggregateMood [result_happy] =
     calculateAggregateMood
       [result_happy\<lparr>metrics := (metrics result_happy)\<lparr>variableDeclarations := 7\<rparr>\<rparr>]"
  proof -
    have e: "agg_step agg_init
          (result_happy\<lparr>metrics := (metrics result_happy)\<lparr>variableDeclarations := 7\<rparr>\<rparr>)
        = agg_step agg_init result_happy"
      by (simp add: agg_step_def Let_def)
    show ?thesis
      by (simp add: calculateAggregateMood_Inr e)
  qed
qed

text \<open>
  Claim C7, amended.  For every list of results that is not empty, the aggregate sums
  each of the ten fields totalLines, codeLines, commentLines, positiveWords,
  negativeWords, stressWords, todoCount, fixmeCount, hackCount and functionCount into
  the totals (and no other field of the metrics), reports the average of the scores rounded half up, and reports as
  dominant mood the label with the highest occurrence count, the first one met in the
  input among those with that count.
\<close>

theorem calculateAggregateMood_reduction:
  assumes "results \<noteq> []"
  shows "\<exists>agg. calculateAggregateMood results = Inr agg
    \<and> fileCount agg = length results
    \<and> totals.totalLines (totals agg) = field_sum totalLines results
    \<and> totals.codeLines (totals agg) = field_sum codeLines results
    \<and> totals.commentLines (totals agg) = field_sum commentLines results
    \<and> totals.positiveWords (totals agg) = field_sum positiveWords results
    \<and> totals.negativeWords (totals agg) = field_sum negativeWords results
    \<and> totals.stressWords (totals agg) = field_sum stressWords results
    \<and> totals.todoCount (totals agg) = field_sum todoCount results
    \<and> totals.fixmeCount (totals agg) = field_sum fixmeCount results
    \<and> totals.hackCount (totals agg) = field_sum hackCount results
    \<and> totals.functionCount (totals agg) = field_sum functionCount results
    \<and> (\<exists>k. avgScore agg = Some k
           \<and> rounds_half_up
                (of_int (sum_list (scores_of results)) / of_nat (length results)) k)
    \<and> spec_dominant (moods_of results) = Some (dominantMood agg)"
proof -
  have m: "moods_of results \<noteq> []"
    using assms by (simp add: moods_of_def)
  have z: "totals_acc agg_init =
      \<lparr> totals.totalLines = 0, totals.codeLines = 0, totals.commentLines = 0,
        totals.positiveWords = 0, totals.negativeWords = 0, totals.stressWords = 0,
        totals.todoCount = 0, totals.fixmeCount = 0, totals.hackCount = 0,
        totals.functionCount = 0 \<rparr>"
    and s: "totalScore agg_init = 0"
    by (simp_all add: agg_init_def)
  show ?thesis
    using assms
    by (simp add: calculateAggregateMood_Inr [OF assms] agg_fold_totals agg_fold_score
        agg_counts dominant_tally [OF m] z s round_div_def rounds_half_up_js_round)
qed

text \<open>
  The amended claim C7 at the two results of the aggregate test: the scores 70 and 35
  average to 52.5 and round to 53, and of the two labels with one occurrence each the
  first one, happy, is dominant.
\<close>

theorem calculateAggregateMood_reduction_witness:
  "[result_happy, result_stressed] \<noteq> []
   \<and> (\<exists>agg. calculateAggregateMood [result_happy, result_stressed] = Inr agg
         \<and> avgScore agg = Some 53
         \<and> dominantMood agg = happy
         \<and> totals.totalLines (totals agg) = 150
         \<and> totals.functionCount (totals agg) = 8)"
proof -
  have ne: "[result_happy, result_stressed] \<noteq> []" by simp
  obtain agg k where a: "calculateAggregateMood [result_happy, result_stressed] = Inr agg"
    and tl: "totals.totalLines (totals agg) = field_sum totalLines [result_happy, result_stressed]"
    and fc: "totals.functionCount (totals agg)
              = field_sum functionCount [result_happy, result_stressed]"
    and av: "avgScore agg = Some k"
    and rd: "rounds_half_up (of_int (sum_list (scores_of [result_happy, result_stressed]))
              / of_nat (length [result_happy, result_stressed])) k"
    and dm: "spec_dominant (moods_of [result_happy, result_stressed]) = Some (dominantMood agg)"
    using calculateAggregateMood_reduction [OF ne] by blast
  have "spec_dominant (moods_of [result_happy, result_stressed]) = Some happy"
    by (simp add: spec_dominant_def moods_of_def most_frequent_def result_happy_def
        result_stressed_def)
  with dm have d: "dominantMood agg = happy" by simp
  have "rounds_half_up (105 / 2) k"
    using rd by (simp add: scores_of_def result_happy_def result_stressed_def)
  then have "k = 53"
    by (simp add: rounds_half_up_def)
  with av have v: "avgScore agg = Some 53" by simp
  have t: "totals.totalLines (totals agg) = 150"
    using tl by (simp add: field_sum_def result_happy_def result_stressed_def zero_metrics_def)
  have f: "totals.functionCount (totals agg) = 8"
    using fc by (simp add: field_sum_def result_happy_def result_stressed_def zero_metrics_def)
  show ?thesis using a d v t f by simp
qed

text \<open>
  Claim C10.  For every list of results that is not empty the sorted tally is not
  empty, so reading its first entry cannot fail, the average is a division by a
  positive length, and an aggregate is returned; for the empty list the function
  throws and returns no aggregate.
\<close>

theorem calculateAggregateMood_defined:
  "(results \<noteq> [] \<longrightarrow>
      sort_entries (counts (foldl agg_step agg_init results)) \<noteq> []
      \<and> round_div (totalScore (foldl agg_step agg_init results)) (length results) \<noteq> None
      \<and> (\<exists>agg. calculateAggregateMood results = Inr agg))
   \<and> calculateAggregateMood [] = Inl TypeError"
  by (simp add: calculateAggregateMood_Nil sorted_tally_nonempty calculateAggregateMood_Inr
      round_div_def)

text \<open>Claim C10 at a list of one result.\<close>

theorem calculateAggregateMood_defined_witness:
  "[result_stressed] \<noteq> []
   \<and> sort_entries (counts (foldl agg_step agg_init [result_stressed])) \<noteq> []
   \<and> (\<exists>agg. calculateAggregateMood [result_stressed] = Inr agg)"
  using calculateAggregateMood_defined [of "[result_stressed]"] by simp

end
